theory Spec2Isabelle
  imports Main "HOL-Library.AList" "HOL-Library.Char_ord" "HOL-Library.List_Lexorder"
begin

section \<open>Strings of the terminal overlay\<close>

text \<open>
  The command engine of the portfolio is the React component \<open>TerminalOverlay\<close>.
  Its strings are JavaScript strings. A character of this development is one UTF-16 code
  unit below 256, where code unit and code point coincide (Latin-1); \<^typ>\<open>string\<close>
  is a list of them. The few literal texts of the source with a character beyond that
  range (an ellipsis, a dash) are output texts of handlers that are never tokenized or
  compared; they are written with the bytes of their UTF-8 encoding.
\<close>

definition dq :: char where
  "dq = CHR 0x22"

definition sq :: char where
  "sq = CHR 0x27"

text \<open>
  The characters that the regular-expression classes \<open>\s\<close> and \<open>\S\<close> and
  \<open>String.prototype.trim\<close> treat as white space, among the code units below 256:
  tab, line feed, vertical tab, form feed, carriage return, space, no-break space.
\<close>

definition isSpace :: "char \<Rightarrow> bool" where
  "isSpace c = (c = CHR 0x09 \<or> c = CHR 0x0A \<or> c = CHR 0x0B \<or> c = CHR 0x0C
     \<or> c = CHR 0x0D \<or> c = CHR 0x20 \<or> c = CHR 0xA0)"

definition notSpace :: "char \<Rightarrow> bool" where
  "notSpace c = (\<not> isSpace c)"

definition trim :: "string \<Rightarrow> string" where
  "trim s = rev (dropWhile isSpace (rev (dropWhile isSpace s)))"

text \<open>
  \<open>String.prototype.toLowerCase\<close> on code units below 256: the letters A to Z and the
  Latin-1 capitals U+00C0 to U+00DE, the multiplication sign U+00D7 apart, move up by 32.
\<close>

definition lowerChar :: "char \<Rightarrow> char" where
  "lowerChar c = (let n = (of_char c :: nat) in
     if (65 \<le> n \<and> n \<le> 90) \<or> (192 \<le> n \<and> n \<le> 222 \<and> n \<noteq> 215)
     then char_of (n + 32) else c)"

definition toLowerCase :: "string \<Rightarrow> string" where
  "toLowerCase s = map lowerChar s"

text \<open>\<open>String.prototype.startsWith\<close> and \<open>String.prototype.includes\<close>.\<close>

definition startsWith :: "string \<Rightarrow> string \<Rightarrow> bool" where
  "startsWith s p = (take (length p) s = p)"

fun includesStr :: "string \<Rightarrow> string \<Rightarrow> bool" where
  "includesStr [] p = (p = [])"
| "includesStr (c # cs) p = (startsWith (c # cs) p \<or> includesStr cs p)"

text \<open>\<open>Array.prototype.join\<close>.\<close>

fun join :: "string \<Rightarrow> string list \<Rightarrow> string" where
  "join sep [] = []"
| "join sep [x] = x"
| "join sep (x # y # ys) = x @ sep @ join sep (y # ys)"

section \<open>The tokenizer\<close>

text \<open>
  \<open>tokenize\<close> runs the global regular expression
  \<^verbatim>\<open>/"([^"]*)"|'([^']*)'|(\S+)/g\<close> over the input with \<open>exec\<close> until it finds
  no match, and collects \<open>m[1] ?? m[2] ?? m[3]\<close>.

  Each of the three alternatives is a matcher anchored at the head of the remaining
  input; it gives the captured group and the input after the match. The group
  \<open>[^"]*\<close> is greedy and must be followed by a quote, so the first alternative matches
  exactly when a second double quote follows, and captures the text up to it.
\<close>

definition altDouble :: "string \<Rightarrow> (string \<times> string) option" where
  "altDouble s = (case s of
       [] \<Rightarrow> None
     | c # cs \<Rightarrow>
         if c = dq \<and> dq \<in> set cs
         then Some (takeWhile (\<lambda>x. x \<noteq> dq) cs, tl (dropWhile (\<lambda>x. x \<noteq> dq) cs))
         else None)"

definition altSingle :: "string \<Rightarrow> (string \<times> string) option" where
  "altSingle s = (case s of
       [] \<Rightarrow> None
     | c # cs \<Rightarrow>
         if c = sq \<and> sq \<in> set cs
         then Some (takeWhile (\<lambda>x. x \<noteq> sq) cs, tl (dropWhile (\<lambda>x. x \<noteq> sq) cs))
         else None)"

definition altWord :: "string \<Rightarrow> (string \<times> string) option" where
  "altWord s = (case s of
       [] \<Rightarrow> None
     | c # cs \<Rightarrow>
         if notSpace c
         then Some (c # takeWhile notSpace cs, dropWhile notSpace cs)
         else None)"

text \<open>
  One call of \<open>re.exec\<close> from the current \<open>lastIndex\<close>: the leftmost position at which
  an alternative matches, the alternatives tried in their order. The result is the token
  and the input after the match (the new \<open>lastIndex\<close>); \<open>None\<close> is JavaScript's
  \<open>null\<close>.
\<close>

fun exec :: "string \<Rightarrow> (string \<times> string) option" where
  "exec [] = None"
| "exec (c # cs) =
     (case altDouble (c # cs) of
        Some r \<Rightarrow> Some r
      | None \<Rightarrow>
          (case altSingle (c # cs) of
             Some r \<Rightarrow> Some r
           | None \<Rightarrow>
               (case altWord (c # cs) of
                  Some r \<Rightarrow> Some r
                | None \<Rightarrow> exec cs)))"

lemma tl_dropWhile_shorter: "length (tl (dropWhile P xs)) < Suc (length xs)"
  using length_dropWhile_le [of P xs] by simp

lemma altDouble_shorter: "altDouble s = Some (tok, rest) \<Longrightarrow> length rest < length s"
  using tl_dropWhile_shorter [of "\<lambda>x. x \<noteq> dq" "tl s"]
  by (auto simp: altDouble_def split: list.splits if_splits)

lemma altSingle_shorter: "altSingle s = Some (tok, rest) \<Longrightarrow> length rest < length s"
  using tl_dropWhile_shorter [of "\<lambda>x. x \<noteq> sq" "tl s"]
  by (auto simp: altSingle_def split: list.splits if_splits)

lemma altWord_shorter: "altWord s = Some (tok, rest) \<Longrightarrow> length rest < length s"
  using length_dropWhile_le [of notSpace "tl s"]
  by (auto simp: altWord_def split: list.splits if_splits)

lemma exec_shorter: "exec s = Some (tok, rest) \<Longrightarrow> length rest < length s"
proof (induction s)
  case Nil
  then show ?case by simp
next
  case (Cons c cs)
  show ?case
  proof (cases "altDouble (c # cs)")
    case (Some r)
    with Cons.prems show ?thesis using altDouble_shorter [of "c # cs" tok rest] by simp
  next
    case nd: None
    show ?thesis
    proof (cases "altSingle (c # cs)")
      case (Some r)
      with nd Cons.prems show ?thesis using altSingle_shorter [of "c # cs" tok rest] by simp
    next
      case ns: None
      show ?thesis
      proof (cases "altWord (c # cs)")
        case (Some r)
        with nd ns Cons.prems show ?thesis using altWord_shorter [of "c # cs" tok rest] by simp
      next
        case None
        with nd ns Cons.prems have "exec cs = Some (tok, rest)" by simp
        then have "length rest < length cs" by (rule Cons.IH)
        then show ?thesis by simp
      qed
    qed
  qed
qed

function tokenize :: "string \<Rightarrow> string list" where
  "tokenize s = (case exec s of None \<Rightarrow> [] | Some (tok, rest) \<Rightarrow> tok # tokenize rest)"
  by pat_completeness auto
termination
  by (relation "measure length") (auto dest: exec_shorter)

declare tokenize.simps [simp del]

section \<open>Handlers and the command registry\<close>

text \<open>
  A handler is called as \<open>handler(args, api)\<close> and awaited. Before it returns or
  throws it may act on the engine through the capability object (\<open>api.print\<close>,
  \<open>api.open\<close>, \<open>api.setTheme\<close>); the built-in \<open>clear\<close> empties the scrollback
  through its closure. A run of a handler is the list of these effects in their order,
  and then either the thrown value or the returned one.

  A thrown value is an \<open>Error\<close> object with its name and message, a string,
  \<open>undefined\<close>/\<open>null\<close>, or a value that cannot be printed: one for which the
  conversion \<^verbatim>\<open>String(err?.message || err || "Unknown error")\<close> of the \<open>catch\<close> block itself
  throws, such as \<open>Object.create(null)\<close>, an object without \<open>toString\<close>. A returned
  value is a string, an array (its elements already converted by \<open>String\<close>), or
  anything else, which the engine ignores.
\<close>

datatype thrown =
  ErrorObj string string | ThrownString string | ThrownNullish | ThrownUnprintable

datatype result = RString string | RArray "string list" | ROther

datatype effect = Print string | OpenUrl string | SetTheme string | ClearLines

type_synonym handler = "string list \<Rightarrow> effect list \<times> (thrown + result)"

text \<open>
  What the host gives and the source only reads: the formatted date and time of
  \<open>fmtDate()\<close> and \<open>nowHHMMSS()\<close>, and the message text of the \<open>TypeError\<close> that
  the JavaScript engine raises when an inherited member of \<open>Object.prototype\<close> is called
  as a handler.
\<close>

record env =
  fmtDate :: string
  nowHHMMSS :: string
  typeErrorMessage :: "string \<Rightarrow> string"

text \<open>
  The props of the component that the engine depends on. There is no prop for a history
  bound. \<open>userCommands\<close> is the caller's object, as its own properties in their order.
\<close>

record props =
  initialLines :: "string list"
  userCommands :: "(string \<times> handler) list"
  startTheme :: string

definition helpText :: "string list" where
  "helpText =
    [''Available commands:'',
     ''  help                Show this help'',
     ''  clear               Clear the screen'',
     ''  echo <text>         Print text'',
     ''  about               Who is Zeshan?'',
     ''  skills              Tech stack overview'',
     ''  projects            List featured projects'',
     ''  contact             How to reach me'',
     ''  date | time         Show current date / time'',
     ''  github              Open GitHub profile'',
     ''  resume              Open resume PDF'',
     ''  open <url>          Open a URL'',
     ''  theme <holo|dark|light>   Switch terminal theme'']"

definition ellipsis :: string where
  "ellipsis = [CHR 0xE2, CHR 0x80, CHR 0xA6]"

definition emDash :: string where
  "emDash = [CHR 0xE2, CHR 0x80, CHR 0x94]"

definition aboutText :: "string list" where
  "aboutText =
    [''User: Zeshan Basaran'',
     ''Specialization: Pattern Recognition & Predictive Modeling'',
     ''Clearance: Data Analyst / Computer Scientist'',
     ''Motto: Analyzing patterns, engineering solutions, shaping the future.'']"

definition skillsText :: "string list" where
  "skillsText =
    [''Languages: Python, Java, Kotlin, SQL, JavaScript/TypeScript, Go (learning)'',
     ''Data: pandas, scikit-learn, Plotly, Dash, Streamlit, NumPy'',
     ''Web: Astro, React, Tailwind, Node, REST APIs'',
     ''DB: SQLite, MySQL, Postgres'',
     ''Tools: Git, Docker, Jupyter, VS Code'']"

definition projectsText :: "string list" where
  "projectsText =
    [''1) Systematic Trading Backtester & Risk Monitor  '' @ emDash @ ''  Python + Streamlit'',
     ''2) Quantitative Factor Analytics Platform        '' @ emDash @ ''  Python + Dash'',
     ''3) Sci-Fi Portfolio (this site)                 '' @ emDash @ ''  Astro + Tailwind'',
     ''Tip: click Projects in the top nav for interactive previews.'']"

definition contactText :: "string list" where
  "contactText =
    [''Email: zeshanbasaran@gmail.com'',
     ''LinkedIn: /in/zeshanbasaran'',
     ''Location: Baltimore, MD (US-ET)'']"

definition openHandler :: handler where
  "openHandler args =
     (case args of
        [] \<Rightarrow> ([], Inr (RString ''Usage: open <url>''))
      | a # _ \<Rightarrow>
          if a = [] then ([], Inr (RString ''Usage: open <url>''))
          else
            (let url = (if toLowerCase (take 7 a) = ''http://''
                           \<or> toLowerCase (take 8 a) = ''https://''
                        then a else ''https://'' @ a)
             in ([OpenUrl url], Inr (RString (''Opening '' @ url @ ellipsis)))))"

definition themeTokens :: "string list" where
  "themeTokens = [''holo'', ''dark'', ''light'']"

definition themeUsage :: string where
  "themeUsage = ''Usage: theme <holo|dark|light>''"

text \<open>\<^verbatim>\<open>(args[0] || "").toLowerCase()\<close>\<close>

definition themeArg :: "string list \<Rightarrow> string" where
  "themeArg args = toLowerCase (case args of [] \<Rightarrow> [] | a # _ \<Rightarrow> a)"

definition themeHandler :: handler where
  "themeHandler args =
     (let t = themeArg args
      in if t \<notin> set themeTokens
         then ([], Inr (RString themeUsage))
         else ([SetTheme t], Inr (RString (''Theme set to '' @ t @ ''.''))))"

text \<open>The object \<open>builtin\<close>, as its properties in the order of the source.\<close>

definition builtin :: "env \<Rightarrow> (string \<times> handler) list" where
  "builtin e =
    [(''help'', \<lambda>args. ([], Inr (RArray helpText))),
     (''clear'', \<lambda>args. ([ClearLines], Inr (RString []))),
     (''echo'', \<lambda>args. ([], Inr (RString (join '' '' args)))),
     (''about'', \<lambda>args. ([], Inr (RArray aboutText))),
     (''skills'', \<lambda>args. ([], Inr (RArray skillsText))),
     (''projects'', \<lambda>args. ([], Inr (RArray projectsText))),
     (''contact'', \<lambda>args. ([], Inr (RArray contactText))),
     (''date'', \<lambda>args. ([], Inr (RString (fmtDate e)))),
     (''time'', \<lambda>args. ([], Inr (RString (nowHHMMSS e)))),
     (''github'', \<lambda>args. ([OpenUrl ''https://github.com/zeshanbasaran''],
        Inr (RString (''Opening GitHub in a new tab'' @ ellipsis)))),
     (''resume'', \<lambda>args. ([OpenUrl ''/resume.pdf''],
        Inr (RString (''Opening resume'' @ ellipsis)))),
     (''open'', openHandler),
     (''theme'', themeHandler)]"

text \<open>
  \<^verbatim>\<open>{ ...builtin, ...(userCommands || {}) }\<close>: the caller's properties are written over
  the built-in ones, a key that exists keeps its place and a new key goes to the end.
\<close>

definition commands :: "props \<Rightarrow> env \<Rightarrow> (string \<times> handler) list" where
  "commands p e = fold (\<lambda>(k, h). AList.update k h) (userCommands p) (builtin e)"

text \<open>\<open>Object.keys(commands).sort()\<close>, the order of code units.\<close>

definition commandNames :: "props \<Rightarrow> env \<Rightarrow> string list" where
  "commandNames p e = sort (map fst (commands p e))"

text \<open>
  \<open>commands\<close> is an ordinary object, and \<open>commands[cmd]\<close> reads a property of it: an own
  property when there is one, otherwise the member of \<open>Object.prototype\<close> of that name.
  Called as \<open>handler(args, api)\<close>, with \<open>this\<close> undefined, \<open>constructor\<close> (the function
  \<open>Object\<close>) returns its first argument, the array \<open>args\<close>; \<open>toString\<close> returns
  \<open>[object Undefined]\<close>; the other members raise a \<open>TypeError\<close>, and so does the call of
  \<open>__proto__\<close>, which is not a function.
\<close>

definition throwingMembers :: "string list" where
  "throwingMembers =
    [''toLocaleString'', ''valueOf'', ''hasOwnProperty'', ''isPrototypeOf'',
     ''propertyIsEnumerable'', ''__defineGetter__'', ''__defineSetter__'',
     ''__lookupGetter__'', ''__lookupSetter__'', ''__proto__'']"

definition objectPrototype :: "env \<Rightarrow> string \<Rightarrow> handler option" where
  "objectPrototype e k =
     (if k = ''constructor'' then Some (\<lambda>args. ([], Inr (RArray args)))
      else if k = ''toString'' then Some (\<lambda>args. ([], Inr (RString ''[object Undefined]'')))
      else if k \<in> set throwingMembers
        then Some (\<lambda>args. ([], Inl (ErrorObj ''TypeError'' (typeErrorMessage e k))))
      else None)"

definition getProperty :: "(string \<times> handler) list \<Rightarrow> env \<Rightarrow> string \<Rightarrow> handler option" where
  "getProperty obj e k =
     (case map_of obj k of Some h \<Rightarrow> Some h | None \<Rightarrow> objectPrototype e k)"

section \<open>The state of the engine\<close>

text \<open>
  The React state that the command engine reads and writes: the theme, the scrollback
  \<open>lines\<close>, the input buffer, the history with its cursor \<open>histIdx\<close> (\<open>-1\<close> is the
  sentinel "not browsing") and the suggestion shown under the prompt. Window position,
  size, drag state and visibility are not part of it. The boot banner that is typed into
  the scrollback when the overlay opens is not modelled either: the facts below hold
  from every state, whatever its scrollback.
\<close>

record state =
  theme :: string
  lines :: "string list"
  input :: string
  history :: "string list"
  histIdx :: int
  suggestion :: string

definition initState :: "props \<Rightarrow> state" where
  "initState p =
     \<lparr>theme = startTheme p, lines = [], input = [], history = [], histIdx = - 1,
      suggestion = []\<rparr>"

definition appendLine :: "string \<Rightarrow> state \<Rightarrow> state" where
  "appendLine text s = s\<lparr>lines := lines s @ [text]\<rparr>"

fun applyEffect :: "effect \<Rightarrow> state \<Rightarrow> state" where
  "applyEffect (Print text) s = appendLine text s"
| "applyEffect (OpenUrl url) s = s"
| "applyEffect (SetTheme t) s = s\<lparr>theme := t\<rparr>"
| "applyEffect ClearLines s = s\<lparr>lines := []\<rparr>"

text \<open>
  \<^verbatim>\<open>String(err?.message || err || "Unknown error")\<close>; \<open>None\<close> when the conversion
  throws.
\<close>

fun errorText :: "thrown \<Rightarrow> string option" where
  "errorText (ErrorObj name message) = Some (if message \<noteq> [] then message else name)"
| "errorText (ThrownString str) = Some (if str \<noteq> [] then str else ''Unknown error'')"
| "errorText ThrownNullish = Some ''Unknown error''"
| "errorText ThrownUnprintable = None"

fun renderResult :: "result \<Rightarrow> state \<Rightarrow> state" where
  "renderResult (RArray ls) s = fold appendLine ls s"
| "renderResult (RString r) s = (if r \<noteq> [] then appendLine r s else s)"
| "renderResult ROther s = s"

definition notFound :: "string \<Rightarrow> string" where
  "notFound cmd = ''Command not found: '' @ cmd @ ''. Type '' @ [sq] @ ''help'' @ [sq] @ ''.''"

text \<open>\<open>h.slice(-99)\<close>: the last 99 entries, all of them when there are fewer.\<close>

definition sliceLast99 :: "string list \<Rightarrow> string list" where
  "sliceLast99 h = drop (length h - 99) h"

section \<open>Submitting a line\<close>

text \<open>
  The part of \<open>runCommand\<close> inside \<open>try\<close>: \<open>Inl\<close> is a value thrown by the handler,
  with the state at that moment, and \<open>Inr\<close> the state after the result is rendered.
\<close>

definition tryDispatch :: "handler option \<Rightarrow> string \<Rightarrow> string list \<Rightarrow> state \<Rightarrow> (thrown \<times> state) + state" where
  "tryDispatch handler cmd args s =
     (case handler of
        None \<Rightarrow> Inr (appendLine (notFound cmd) s)
      | Some h \<Rightarrow>
          (case h args of
             (effs, Inl err) \<Rightarrow> Inl (err, fold applyEffect effs s)
           | (effs, Inr res) \<Rightarrow> Inr (renderResult res (fold applyEffect effs s))))"

text \<open>
  \<^verbatim>\<open>const [cmd, ...args] = tokenize(raw)\<close>. When \<open>tokenize\<close> finds no token, \<open>cmd\<close> is
  \<open>undefined\<close>, which reads the property \<open>undefined\<close> and prints as that word.
\<close>

definition splitCommand :: "string \<Rightarrow> string \<times> string list" where
  "splitCommand raw = (case tokenize raw of [] \<Rightarrow> (''undefined'', []) | c # a \<Rightarrow> (c, a))"

text \<open>
  The asynchronous function \<open>runCommand(raw)\<close>, the handler awaited to its end: how the
  promise that it returns settles, and the state of the engine then. The \<open>catch\<close>
  block converts the thrown value and appends the text; when the conversion throws, no
  line is appended and the promise is rejected.
\<close>

datatype settlement = Fulfilled | Rejected

definition runCommandAsync :: "props \<Rightarrow> env \<Rightarrow> string \<Rightarrow> state \<Rightarrow> settlement \<times> state" where
  "runCommandAsync p e raw s =
     (if trim raw = [] then (Fulfilled, s)
      else
        (let s1 = appendLine (''$ '' @ raw) s;
             s2 = s1\<lparr>history := sliceLast99 (history s1) @ [raw]\<rparr>;
             s3 = s2\<lparr>histIdx := - 1\<rparr>;
             (cmd, args) = splitCommand raw;
             handler = getProperty (commands p e) e cmd
         in case tryDispatch handler cmd args s3 of
              Inr s4 \<Rightarrow> (Fulfilled, s4)
            | Inl (err, s4) \<Rightarrow>
                (case errorText err of
                   Some text \<Rightarrow> (Fulfilled, appendLine text s4)
                 | None \<Rightarrow> (Rejected, s4))))"

text \<open>
  The state that a call of \<open>runCommand\<close> leaves. The Enter key calls \<open>runCommand\<close> and
  does not look at its promise.
\<close>

definition runCommand :: "props \<Rightarrow> env \<Rightarrow> string \<Rightarrow> state \<Rightarrow> state" where
  "runCommand p e raw s = snd (runCommandAsync p e raw s)"

section \<open>Keys and typing\<close>

text \<open>
  The effect on \<open>[input, commandNames]\<close> computes the hint shown while typing: the one
  command name that starts with the first token, or nothing.
\<close>

definition hint :: "string list \<Rightarrow> string \<Rightarrow> string" where
  "hint names inp =
     (case tokenize inp of
        [] \<Rightarrow> []
      | tok # _ \<Rightarrow>
          if tok = [] then []
          else (let matches = filter (\<lambda>c. startsWith c tok) names
                in if length matches = 1 then hd matches else []))"

text \<open>
  React runs the effect after a render in which the input buffer differs from the one
  of the render before; the command names never change after construction.
\<close>

definition inputEffect :: "string list \<Rightarrow> state \<Rightarrow> state \<Rightarrow> state" where
  "inputEffect names old new =
     (if input new = input old then new else new\<lparr>suggestion := hint names (input new)\<rparr>)"

text \<open>
  \<open>GetSubstitution\<close> of \<open>String.prototype.replace\<close> for a pattern without capture
  groups that matched at the start: in the replacement text \<open>$$\<close> is a dollar sign,
  \<open>$&\<close> the matched text, a dollar and a backquote the (empty) text before the match, a
  dollar and a quote the text after it; every other character stands for itself.
\<close>

fun getSubstitution :: "string \<Rightarrow> string \<Rightarrow> string \<Rightarrow> string" where
  "getSubstitution matched after [] = []"
| "getSubstitution matched after [c] = [c]"
| "getSubstitution matched after (c # d # r) =
     (if c = CHR ''$'' \<and> d = CHR ''$'' then CHR ''$'' # getSubstitution matched after r
      else if c = CHR ''$'' \<and> d = CHR ''&'' then matched @ getSubstitution matched after r
      else if c = CHR ''$'' \<and> d = CHR 0x60 then getSubstitution matched after r
      else if c = CHR ''$'' \<and> d = sq then after @ getSubstitution matched after r
      else c # getSubstitution matched after (d # r))"

text \<open>\<^verbatim>\<open>input.replace(/^\S+/, name)\<close>\<close>

definition replaceFirstWord :: "string \<Rightarrow> string \<Rightarrow> string" where
  "replaceFirstWord inp name =
     (case inp of
        [] \<Rightarrow> inp
      | c # cs \<Rightarrow>
          if notSpace c
          then getSubstitution (takeWhile notSpace inp) (dropWhile notSpace inp) name
                 @ dropWhile notSpace inp
          else inp)"

text \<open>
  \<open>history[ni]\<close>: \<open>None\<close> is \<open>undefined\<close>, the value that JavaScript reads outside the
  array.
\<close>

definition jsIndex :: "string list \<Rightarrow> int \<Rightarrow> string option" where
  "jsIndex xs i = (if 0 \<le> i \<and> i < int (length xs) then Some (xs ! nat i) else None)"

text \<open>
  The branch of \<open>onKeyDown\<close> for the up arrow. The input buffer of the model holds a
  string; where the source would store \<open>undefined\<close> in it, the result is \<open>None\<close>.
\<close>

definition arrowUp :: "state \<Rightarrow> state option" where
  "arrowUp s =
     (if history s = [] then Some s
      else
        (let ni = (if histIdx s < 0 then int (length (history s)) - 1
                   else max 0 (histIdx s - 1))
         in case jsIndex (history s) ni of
              None \<Rightarrow> None
            | Some v \<Rightarrow> Some (s\<lparr>histIdx := ni, input := v\<rparr>)))"

definition arrowDown :: "state \<Rightarrow> state option" where
  "arrowDown s =
     (if histIdx s < 0 then Some s
      else
        (let ni = histIdx s + 1
         in if ni \<ge> int (length (history s)) then Some (s\<lparr>histIdx := - 1, input := []\<rparr>)
            else (case jsIndex (history s) ni of
                    None \<Rightarrow> None
                  | Some v \<Rightarrow> Some (s\<lparr>histIdx := ni, input := v\<rparr>))))"

definition enter :: "props \<Rightarrow> env \<Rightarrow> state \<Rightarrow> state" where
  "enter p e s = runCommand p e (input s) (s\<lparr>input := [], suggestion := []\<rparr>)"

definition tab :: "string list \<Rightarrow> state \<Rightarrow> state" where
  "tab names s =
     (case tokenize (input s) of
        [] \<Rightarrow> s
      | tok # _ \<Rightarrow>
          if tok = [] then s
          else
            (let matches = filter (\<lambda>c. startsWith c tok) names
             in if length matches = 1
                then s\<lparr>input := replaceFirstWord (input s) (hd matches), suggestion := []\<rparr>
                else if length matches > 1 then s\<lparr>suggestion := join ''  '' matches\<rparr>
                else s))"

datatype key = ArrowUp | ArrowDown | Enter | Tab | Escape | OtherKey

text \<open>
  One key press on the input field, the effect on the input buffer included. Escape
  closes the overlay and leaves the state of the engine as it is.
\<close>

definition onKeyDown :: "props \<Rightarrow> env \<Rightarrow> key \<Rightarrow> state \<Rightarrow> state option" where
  "onKeyDown p e k s =
     map_option (inputEffect (commandNames p e) s)
       (case k of
          ArrowUp \<Rightarrow> arrowUp s
        | ArrowDown \<Rightarrow> arrowDown s
        | Enter \<Rightarrow> Some (enter p e s)
        | Tab \<Rightarrow> Some (tab (commandNames p e) s)
        | Escape \<Rightarrow> Some s
        | OtherKey \<Rightarrow> Some s)"

text \<open>Typing: \<open>onChange\<close> stores the new text of the input field.\<close>

definition onChange :: "props \<Rightarrow> env \<Rightarrow> string \<Rightarrow> state \<Rightarrow> state" where
  "onChange p e v s = inputEffect (commandNames p e) s (s\<lparr>input := v\<rparr>)"



section \<open>A default construction\<close>

text \<open>
  The component with its default props, and a host for the closed examples below: a
  date, a time, and a message for the \<open>TypeError\<close> of a call that fails.
\<close>

definition defaultProps :: props where
  "defaultProps =
     \<lparr>initialLines =
        [''Type '' @ [sq] @ ''help'' @ [sq] @ '' to list commands.'',
         ''Try: projects, skills, about, theme holo''],
      userCommands = [],
      startTheme = ''holo''\<rparr>"

definition sampleEnv :: env where
  "sampleEnv =
     \<lparr>fmtDate = ''Nov 03, 2026'',
      nowHHMMSS = ''1:00:00 PM'',
      typeErrorMessage = (\<lambda>k. ''Cannot call '' @ k)\<rparr>"

text \<open>
  A construction with two commands of the caller: \<open>history\<close>, which returns nothing,
  and \<open>boom\<close>, which prints a line and then throws an \<open>Error\<close>.
\<close>

definition sampleProps :: props where
  "sampleProps =
     defaultProps\<lparr>userCommands :=
       [(''history'', \<lambda>args. ([], Inr ROther)),
        (''boom'', \<lambda>args. ([Print ''before''], Inl (ErrorObj ''Error'' ''boom failed'')))]\<rparr>"

section \<open>What a submitted line shows\<close>

text \<open>
  Two functions of the specification's side, to state what the scrollback holds after a
  command. \<open>scroll\<close> is what a list of effects does to the scrollback alone, and
  \<open>outcome\<close> gives, for a submitted line, the effects of the handler that the line
  resolves to and the lines that the engine renders when it has run.
\<close>

fun scroll :: "effect list \<Rightarrow> string list \<Rightarrow> string list" where
  "scroll [] ls = ls"
| "scroll (Print text # effs) ls = scroll effs (ls @ [text])"
| "scroll (ClearLines # effs) ls = scroll effs []"
| "scroll (OpenUrl url # effs) ls = scroll effs ls"
| "scroll (SetTheme t # effs) ls = scroll effs ls"

fun printed :: "effect list \<Rightarrow> string list" where
  "printed [] = []"
| "printed (Print text # effs) = text # printed effs"
| "printed (ClearLines # effs) = printed effs"
| "printed (OpenUrl url # effs) = printed effs"
| "printed (SetTheme t # effs) = printed effs"

fun resultLines :: "result \<Rightarrow> string list" where
  "resultLines (RArray ls) = ls"
| "resultLines (RString r) = (if r \<noteq> [] then [r] else [])"
| "resultLines ROther = []"

definition outcome :: "props \<Rightarrow> env \<Rightarrow> string \<Rightarrow> effect list \<times> string list" where
  "outcome p e raw =
     (case getProperty (commands p e) e (fst (splitCommand raw)) of
        None \<Rightarrow> ([], [notFound (fst (splitCommand raw))])
      | Some h \<Rightarrow>
          (case h (snd (splitCommand raw)) of
             (effs, Inl err) \<Rightarrow>
               (effs, case errorText err of Some text \<Rightarrow> [text] | None \<Rightarrow> [])
           | (effs, Inr res) \<Rightarrow> (effs, resultLines res)))"

definition blank :: "string \<Rightarrow> bool" where
  "blank raw = list_all isSpace raw"

section \<open>Basic facts\<close>

lemma isSpace_quotes: "\<not> isSpace dq" "\<not> isSpace sq"
  by (simp_all add: isSpace_def dq_def sq_def)


lemma dropWhile_all: "list_all P xs \<Longrightarrow> dropWhile P xs = []"
  by (induction xs) auto

lemma dropWhile_nil_all: "dropWhile P xs = [] \<Longrightarrow> list_all P xs"
  by (induction xs) (auto split: if_splits)

lemma trim_blank: "(trim raw = []) = blank raw"
proof
  assume "trim raw = []"
  then have "dropWhile isSpace (rev (dropWhile isSpace raw)) = []"
    by (simp add: trim_def)
  then have "list_all isSpace (rev (dropWhile isSpace raw))"
    by (rule dropWhile_nil_all)
  then have "list_all isSpace (dropWhile isSpace raw)"
    by (simp add: list_all_iff)
  then have "dropWhile isSpace raw = []"
    using hd_dropWhile [of isSpace raw]
    by (cases "dropWhile isSpace raw") auto
  then show "blank raw"
    unfolding blank_def by (rule dropWhile_nil_all)
next
  assume "blank raw"
  then show "trim raw = []"
    by (simp add: trim_def blank_def dropWhile_all)
qed

lemma lines_fold_appendLine: "lines (fold appendLine ls s) = lines s @ ls"
  by (induction ls arbitrary: s) (auto simp: appendLine_def)

lemma fold_appendLine_frame:
  "history (fold appendLine ls s) = history s"
  "histIdx (fold appendLine ls s) = histIdx s"
  "theme (fold appendLine ls s) = theme s"
  "input (fold appendLine ls s) = input s"
  "suggestion (fold appendLine ls s) = suggestion s"
  by (induction ls arbitrary: s) (auto simp: appendLine_def)

lemma lines_renderResult: "lines (renderResult res s) = lines s @ resultLines res"
  by (cases res) (auto simp: lines_fold_appendLine appendLine_def)

lemma renderResult_frame:
  "history (renderResult res s) = history s"
  "histIdx (renderResult res s) = histIdx s"
  "theme (renderResult res s) = theme s"
  "input (renderResult res s) = input s"
  "suggestion (renderResult res s) = suggestion s"
  by (cases res; simp add: fold_appendLine_frame appendLine_def)+

lemma lines_fold_applyEffect: "lines (fold applyEffect effs s) = scroll effs (lines s)"
  by (induction effs "lines s" arbitrary: s rule: scroll.induct) (auto simp: appendLine_def)

lemma fold_applyEffect_frame:
  "history (fold applyEffect effs s) = history s"
  "histIdx (fold applyEffect effs s) = histIdx s"
  "input (fold applyEffect effs s) = input s"
  "suggestion (fold applyEffect effs s) = suggestion s"
proof -
  have one: "history (applyEffect x s) = history s \<and> histIdx (applyEffect x s) = histIdx s
    \<and> input (applyEffect x s) = input s \<and> suggestion (applyEffect x s) = suggestion s"
    for x s by (cases x) (auto simp: appendLine_def)
  have "history (fold applyEffect effs s) = history s
    \<and> histIdx (fold applyEffect effs s) = histIdx s
    \<and> input (fold applyEffect effs s) = input s
    \<and> suggestion (fold applyEffect effs s) = suggestion s"
    by (induction effs arbitrary: s) (auto simp: one)
  then show "history (fold applyEffect effs s) = history s"
    "histIdx (fold applyEffect effs s) = histIdx s"
    "input (fold applyEffect effs s) = input s"
    "suggestion (fold applyEffect effs s) = suggestion s"
    by simp_all
qed

lemma scroll_no_clear: "ClearLines \<notin> set effs \<Longrightarrow> scroll effs ls = ls @ printed effs"
  by (induction effs ls rule: scroll.induct) auto

lemma runCommand_blank: "blank raw \<Longrightarrow> runCommand p e raw s = s"
  by (simp add: runCommand_def runCommandAsync_def trim_blank)

lemma runCommand_history:
  "\<not> blank raw \<Longrightarrow> history (runCommand p e raw s) = sliceLast99 (history s) @ [raw]"
  by (auto simp: runCommand_def runCommandAsync_def trim_blank Let_def tryDispatch_def appendLine_def
      renderResult_frame fold_applyEffect_frame
      split: prod.splits option.splits sum.splits)

lemma runCommand_histIdx: "\<not> blank raw \<Longrightarrow> histIdx (runCommand p e raw s) = - 1"
  by (auto simp: runCommand_def runCommandAsync_def trim_blank Let_def tryDispatch_def appendLine_def
      renderResult_frame fold_applyEffect_frame
      split: prod.splits option.splits sum.splits)

lemma runCommand_input: "input (runCommand p e raw s) = input s"
  by (auto simp: runCommand_def runCommandAsync_def Let_def tryDispatch_def appendLine_def
      renderResult_frame fold_applyEffect_frame
      split: prod.splits option.splits sum.splits)

lemma runCommand_suggestion: "suggestion (runCommand p e raw s) = suggestion s"
  by (auto simp: runCommand_def runCommandAsync_def Let_def tryDispatch_def appendLine_def
      renderResult_frame fold_applyEffect_frame
      split: prod.splits option.splits sum.splits)

lemma runCommand_lines:
  "\<not> blank raw \<Longrightarrow>
   lines (runCommand p e raw s) =
     scroll (fst (outcome p e raw)) (lines s @ [''$ '' @ raw]) @ snd (outcome p e raw)"
  by (auto simp: runCommand_def runCommandAsync_def trim_blank Let_def tryDispatch_def appendLine_def outcome_def
      lines_renderResult lines_fold_applyEffect
      split: prod.splits option.splits sum.splits)

lemma length_sliceLast99: "length (sliceLast99 h) = min 99 (length h)"
  by (simp add: sliceLast99_def)

lemma sliceLast99_short: "length h \<le> 99 \<Longrightarrow> sliceLast99 h = h"
  by (simp add: sliceLast99_def)

lemma sliceLast99_full: "length h = 100 \<Longrightarrow> sliceLast99 h = tl h"
  by (cases h) (simp_all add: sliceLast99_def)

section \<open>Submission: echo, history and its bound\<close>

text \<open>
  The component \<open>TerminalOverlay\<close>. For every submitted line that is not blank, the
  scrollback is the old scrollback with exactly one echo line (a dollar sign, a space
  and the raw line) appended, on which the effects of the handler act and after which
  the lines of its outcome follow; when no effect clears the scrollback, the echo line
  stays right after the old lines. The raw line becomes the one new, last entry of the
  history, the cursor is the sentinel \<open>-1\<close>, and the history keeps the most recent 100
  entries: below 100 entries nothing is dropped, and at 100 the oldest one is evicted.
\<close>

theorem runCommand_echo_history_bound:
  assumes "\<not> blank raw"
  shows "lines (runCommand p e raw s)
       = scroll (fst (outcome p e raw)) (lines s @ [''$ '' @ raw]) @ snd (outcome p e raw)
     \<and> (ClearLines \<notin> set (fst (outcome p e raw)) \<longrightarrow>
          lines (runCommand p e raw s)
          = lines s @ [''$ '' @ raw] @ printed (fst (outcome p e raw)) @ snd (outcome p e raw))
     \<and> history (runCommand p e raw s) = sliceLast99 (history s) @ [raw]
     \<and> histIdx (runCommand p e raw s) = - 1
     \<and> length (history (runCommand p e raw s)) \<le> 100
     \<and> (length (history s) < 100 \<longrightarrow> history (runCommand p e raw s) = history s @ [raw])
     \<and> (length (history s) = 100 \<longrightarrow> history (runCommand p e raw s) = tl (history s) @ [raw])"
proof -
  have l: "lines (runCommand p e raw s)
       = scroll (fst (outcome p e raw)) (lines s @ [''$ '' @ raw]) @ snd (outcome p e raw)"
    using assms by (rule runCommand_lines)
  have h: "history (runCommand p e raw s) = sliceLast99 (history s) @ [raw]"
    using assms by (rule runCommand_history)
  have i: "histIdx (runCommand p e raw s) = - 1"
    using assms by (rule runCommand_histIdx)
  have n: "length (history (runCommand p e raw s)) \<le> 100"
    by (simp add: h length_sliceLast99)
  have short: "history (runCommand p e raw s) = history s @ [raw]" if "length (history s) < 100"
    using that by (simp add: h sliceLast99_short)
  have full: "history (runCommand p e raw s) = tl (history s) @ [raw]" if "length (history s) = 100"
    using that by (simp add: h sliceLast99_full)
  have nc: "lines (runCommand p e raw s)
          = lines s @ [''$ '' @ raw] @ printed (fst (outcome p e raw)) @ snd (outcome p e raw)"
    if "ClearLines \<notin> set (fst (outcome p e raw))"
    using that by (simp add: l scroll_no_clear)
  from l nc h i n short full show ?thesis by blast
qed

text \<open>
  The theorem at two submissions to the default construction: \<open>echo hi\<close> on the fresh
  engine, and \<open>help\<close> when the history already holds 100 entries.
\<close>

theorem runCommand_echo_history_bound_witness:
  "\<not> blank ''echo hi''
   \<and> lines (runCommand defaultProps sampleEnv ''echo hi'' (initState defaultProps))
       = [''$ echo hi'', ''hi'']
   \<and> history (runCommand defaultProps sampleEnv ''echo hi'' (initState defaultProps))
       = [''echo hi'']
   \<and> histIdx (runCommand defaultProps sampleEnv ''echo hi'' (initState defaultProps)) = - 1
   \<and> \<not> blank ''help''
   \<and> history (runCommand defaultProps sampleEnv ''help''
         ((initState defaultProps)\<lparr>history := ''first'' # replicate 99 ''x''\<rparr>))
       = replicate 99 ''x'' @ [''help'']"
proof -
  let ?s = "initState defaultProps"
  let ?t = "(initState defaultProps)\<lparr>history := ''first'' # replicate 99 ''x''\<rparr>"
  have b1: "\<not> blank ''echo hi''"
    by (simp add: blank_def isSpace_def)
  have b2: "\<not> blank ''help''"
    by (simp add: blank_def isSpace_def)
  have o: "outcome defaultProps sampleEnv ''echo hi'' = ([], [''hi''])"
    by code_simp
  have s0: "lines ?s = []" "history ?s = []"
    by (simp_all add: initState_def)
  have t0: "length (history ?t) = 100" "tl (history ?t) = replicate 99 ''x''"
    by simp_all
  from runCommand_echo_history_bound [OF b1, of defaultProps sampleEnv ?s]
  have "lines (runCommand defaultProps sampleEnv ''echo hi'' ?s) = [''$ echo hi'', ''hi'']"
    and "history (runCommand defaultProps sampleEnv ''echo hi'' ?s) = [''echo hi'']"
    and "histIdx (runCommand defaultProps sampleEnv ''echo hi'' ?s) = - 1"
    by (simp_all add: o s0 sliceLast99_def)
  moreover have "history (runCommand defaultProps sampleEnv ''help'' ?t)
      = replicate 99 ''x'' @ [''help'']"
  proof -
    from runCommand_echo_history_bound [OF b2, of defaultProps sampleEnv ?t] t0(1)
    have "history (runCommand defaultProps sampleEnv ''help'' ?t) = tl (history ?t) @ [''help'']"
      by blast
    then show ?thesis by (simp only: t0(2))
  qed
  ultimately show ?thesis using b1 b2 by simp
qed

subsection \<open>The bound of the hook useTerminal\<close>

text \<open>
  The repository has the engine a second time, as the hook \<open>useTerminal\<close>, with the
  option \<open>historyMax\<close> (default 100). Its \<open>runCommand\<close> returns on a blank line, and
  otherwise sets the history to \<^verbatim>\<open>[...prev.slice(-historyMax + 1), trimmed]\<close>, where
  \<open>trimmed\<close> is \<open>raw.trim()\<close>; nothing else writes the history.

  \<open>Array.prototype.slice(start)\<close> on a whole number: a negative start counts from the
  end, and the start is clamped to the array.
\<close>

definition jsSliceFrom :: "int \<Rightarrow> 'a list \<Rightarrow> 'a list" where
  "jsSliceFrom start xs =
     (let n = int (length xs);
          k = (if start < 0 then max (n + start) 0 else min start n)
      in drop (nat k) xs)"

definition defaultHistoryMax :: int where
  "defaultHistoryMax = 100"

definition useTerminalHistory :: "int \<Rightarrow> string \<Rightarrow> string list \<Rightarrow> string list" where
  "useTerminalHistory historyMax raw prev =
     (let trimmed = trim raw
      in if trimmed = [] then prev
         else jsSliceFrom (- historyMax + 1) prev @ [trimmed])"

fun useTerminalSubmitAll :: "int \<Rightarrow> string list \<Rightarrow> string list \<Rightarrow> string list" where
  "useTerminalSubmitAll historyMax [] prev = prev"
| "useTerminalSubmitAll historyMax (raw # raws) prev =
     useTerminalSubmitAll historyMax raws (useTerminalHistory historyMax raw prev)"

text \<open>
  With the default the hook keeps what the component keeps. With a bound of at least 2
  its history never grows beyond the bound. With \<open>historyMax = 1\<close> the start of the
  slice is 0, the slice is the whole history, and the history grows with every line.
\<close>

lemma jsSliceFrom_last99: "jsSliceFrom (- 99) h = sliceLast99 h"
proof -
  have "nat (max (int (length h) - 99) 0) = length h - 99"
    by simp
  then show ?thesis
    by (simp add: jsSliceFrom_def sliceLast99_def)
qed

lemma useTerminalHistory_default:
  "useTerminalHistory defaultHistoryMax raw prev
     = (if blank raw then prev else sliceLast99 prev @ [trim raw])"
  using jsSliceFrom_last99 [of prev]
  by (simp add: useTerminalHistory_def defaultHistoryMax_def trim_blank)

lemma useTerminalHistory_bounded:
  assumes "2 \<le> historyMax" and "int (length prev) \<le> historyMax"
  shows "int (length (useTerminalHistory historyMax raw prev)) \<le> historyMax"
  using assms by (auto simp: useTerminalHistory_def jsSliceFrom_def Let_def)

lemma useTerminalHistory_bound_one:
  "useTerminalSubmitAll 1 [''a'', ''b''] [] = [''a'', ''b'']"
  by code_simp


section \<open>Submission of a blank line\<close>

text \<open>
  C2. For every line that consists of white space only, the empty line included,
  submitting it changes nothing: \<open>runCommand\<close> returns the state it was given, and
  the Enter key, which first empties the input buffer, leaves the scrollback, the
  history and the history cursor as they were.
\<close>

theorem blank_line_changes_nothing:
  assumes "blank raw"
  shows "runCommand p e raw s = s
     \<and> lines (enter p e (s\<lparr>input := raw\<rparr>)) = lines s
     \<and> history (enter p e (s\<lparr>input := raw\<rparr>)) = history s
     \<and> histIdx (enter p e (s\<lparr>input := raw\<rparr>)) = histIdx s"
  using assms by (simp add: runCommand_blank enter_def)

theorem blank_line_changes_nothing_witness:
  "blank [CHR '' '', CHR 0x09, CHR '' '']
   \<and> runCommand defaultProps sampleEnv [CHR '' '', CHR 0x09, CHR '' ''] (initState defaultProps)
       = initState defaultProps
   \<and> blank []
   \<and> runCommand defaultProps sampleEnv [] (initState defaultProps) = initState defaultProps"
proof -
  have b1: "blank [CHR '' '', CHR 0x09, CHR '' '']"
    by (simp add: blank_def isSpace_def)
  have b2: "blank []"
    by (simp add: blank_def)
  from blank_line_changes_nothing [OF b1] blank_line_changes_nothing [OF b2] b1 b2
  show ?thesis by blast
qed

section \<open>Tokens\<close>

lemma exec_space: "isSpace c \<Longrightarrow> exec (c # cs) = exec cs"
  using isSpace_quotes
  by (auto simp: altDouble_def altSingle_def altWord_def notSpace_def)

lemma tokenize_space: "isSpace c \<Longrightarrow> tokenize (c # cs) = tokenize cs"
  using tokenize.simps [of "c # cs"] tokenize.simps [of cs]
  by (simp only: exec_space)

lemma tokenize_skip: "list_all isSpace ws \<Longrightarrow> tokenize (ws @ s) = tokenize s"
  by (induction ws) (simp_all add: tokenize_space)

lemma tokenize_nil: "tokenize [] = []"
  by (simp add: tokenize.simps)







lemma tokenize_not_blank: "\<not> blank s \<Longrightarrow> tokenize s \<noteq> []"
proof (induction s)
  case Nil
  then show ?case by (simp add: blank_def)
next
  case (Cons c cs)
  show ?case
  proof (cases "isSpace c")
    case True
    with Cons show ?thesis by (simp add: tokenize_space blank_def)
  next
    case False
    then have "exec (c # cs) \<noteq> None"
      by (auto simp: altWord_def notSpace_def split: option.splits)
    then show ?thesis
      using tokenize.simps [of "c # cs"] by (auto split: option.splits)
  qed
qed




section \<open>The registry and dispatch\<close>

lemma map_of_fold_update:
  "map_of (fold (\<lambda>(k, h). AList.update k h) u b) = map_of b ++ map_of (rev u)"
proof (induction u arbitrary: b)
  case Nil
  then show ?case by simp
next
  case (Cons x u)
  obtain k h where x: "x = (k, h)" by (cases x)
  have "map_of (fold (\<lambda>(k, h). AList.update k h) (x # u) b)
      = map_of (AList.update k h b) ++ map_of (rev u)"
    by (simp add: x Cons.IH)
  also have "\<dots> = (map_of b ++ map_of [(k, h)]) ++ map_of (rev u)"
    by (simp add: update_conv')
  also have "\<dots> = map_of b ++ map_of (rev (x # u))"
    by (simp add: x)
  finally show ?case .
qed

lemma map_of_commands:
  "map_of (userCommands p) k = None \<Longrightarrow> map_of (commands p e) k = map_of (builtin e) k"
proof -
  assume "map_of (userCommands p) k = None"
  then have "k \<notin> fst ` set (rev (userCommands p))"
    by (simp add: map_of_eq_None_iff)
  then have "map_of (rev (userCommands p)) k = None"
    by (simp add: map_of_eq_None_iff)
  then show ?thesis
    by (simp add: commands_def map_of_fold_update map_add_def)
qed


lemma tokenize_blank: "blank s \<Longrightarrow> tokenize s = []"
  using tokenize_skip [of s "[]"] by (simp add: blank_def tokenize_nil)

lemma tokens_not_blank: "tokenize raw = tok # toks \<Longrightarrow> \<not> blank raw"
  using tokenize_blank [of raw] by auto

lemma includesStr_nil: "includesStr s []"
  by (cases s) (simp_all add: startsWith_def)

lemma includesStr_self: "includesStr s s"
  by (cases s) (simp_all add: startsWith_def)

lemma errorText_includes_message:
  "errorText (ErrorObj name msg) = Some text \<Longrightarrow> includesStr text msg"
  by (auto simp: includesStr_nil includesStr_self)

lemma runCommand_resolved:
  assumes "\<not> blank raw"
    and "getProperty (commands p e) e (fst (splitCommand raw)) = Some h"
  shows "runCommand p e raw s =
     (case tryDispatch (Some h) (fst (splitCommand raw)) (snd (splitCommand raw))
             (s\<lparr>lines := lines s @ [''$ '' @ raw],
                history := sliceLast99 (history s) @ [raw], histIdx := - 1\<rparr>) of
        Inr s4 \<Rightarrow> s4
      | Inl (err, s4) \<Rightarrow>
          (case errorText err of Some text \<Rightarrow> appendLine text s4 | None \<Rightarrow> s4))"
  using assms
  by (simp add: runCommand_def runCommandAsync_def trim_blank Let_def appendLine_def
      case_prod_beta split: sum.splits option.splits)

section \<open>A handler that throws\<close>

text \<open>
  When the handler that a submitted line resolves to throws a value that the \<open>catch\<close>
  block can print, after whatever effects it had, the body of \<open>try\<close> ends with the
  thrown value, the promise of \<open>runCommand\<close> is fulfilled, and the scrollback after the
  echo line and the effects gets exactly one more line, the text of the error; history
  and cursor are as after every submission. The text of an \<open>Error\<close> contains its
  message and is the message when that is not empty; a thrown string that is not empty
  is rendered as it is.
\<close>

lemma printable_throw_becomes_one_line:
  assumes "\<not> blank raw"
    and "getProperty (commands p e) e (fst (splitCommand raw)) = Some h"
    and "h (snd (splitCommand raw)) = (effs, Inl err)"
    and "errorText err = Some text"
  shows "tryDispatch (Some h) (fst (splitCommand raw)) (snd (splitCommand raw)) s0
       = Inl (err, fold applyEffect effs s0)
     \<and> fst (runCommandAsync p e raw s) = Fulfilled
     \<and> lines (runCommand p e raw s) = scroll effs (lines s @ [''$ '' @ raw]) @ [text]
     \<and> history (runCommand p e raw s) = sliceLast99 (history s) @ [raw]
     \<and> histIdx (runCommand p e raw s) = - 1
     \<and> input (runCommand p e raw s) = input s
     \<and> (msg \<noteq> [] \<longrightarrow> errorText (ErrorObj name msg) = Some msg)
     \<and> (str \<noteq> [] \<longrightarrow> errorText (ThrownString str) = Some str)"
proof -
  have o: "outcome p e raw = (effs, [text])"
    using assms(2,3,4) by (simp add: outcome_def)
  have t: "tryDispatch (Some h) (fst (splitCommand raw)) (snd (splitCommand raw)) s0
       = Inl (err, fold applyEffect effs s0)" for s0
    using assms(3) by (simp add: tryDispatch_def)
  have f: "fst (runCommandAsync p e raw s) = Fulfilled"
    using assms(1,2,4)
    by (simp add: runCommandAsync_def trim_blank Let_def case_prod_beta t)
  have l: "lines (runCommand p e raw s) = scroll effs (lines s @ [''$ '' @ raw]) @ [text]"
    using runCommand_lines [OF assms(1), of p e s] by (simp add: o)
  show ?thesis
    using t f l runCommand_history [OF assms(1)] runCommand_histIdx [OF assms(1)]
      runCommand_input
    by simp
qed

lemma printable_throw_example:
  "fst (runCommandAsync sampleProps sampleEnv ''boom now'' (initState sampleProps)) = Fulfilled"
  "lines (runCommand sampleProps sampleEnv ''boom now'' (initState sampleProps))
     = [''$ boom now'', ''before'', ''boom failed'']"
  by code_simp+

text \<open>
  When the thrown value cannot be printed, the conversion in the \<open>catch\<close> block throws:
  the promise of \<open>runCommand\<close> is rejected and the scrollback gets no line for the
  error, only the echo line and what the handler had printed.
\<close>

lemma unprintable_throw_is_rejected:
  assumes "\<not> blank raw"
    and "getProperty (commands p e) e (fst (splitCommand raw)) = Some h"
    and "h (snd (splitCommand raw)) = (effs, Inl ThrownUnprintable)"
  shows "fst (runCommandAsync p e raw s) = Rejected
     \<and> lines (runCommand p e raw s) = scroll effs (lines s @ [''$ '' @ raw])"
proof -
  have o: "outcome p e raw = (effs, [])"
    using assms(2,3) by (simp add: outcome_def)
  have t: "tryDispatch (Some h) (fst (splitCommand raw)) (snd (splitCommand raw)) s0
       = Inl (ThrownUnprintable, fold applyEffect effs s0)" for s0
    using assms(3) by (simp add: tryDispatch_def)
  have r: "fst (runCommandAsync p e raw s) = Rejected"
    using assms(1,2)
    by (simp add: runCommandAsync_def trim_blank Let_def case_prod_beta t)
  have l: "lines (runCommand p e raw s) = scroll effs (lines s @ [''$ '' @ raw])"
    using runCommand_lines [OF assms(1), of p e s] by (simp add: o)
  from r l show ?thesis by simp
qed

text \<open>
  A construction with one command of the caller, \<open>crash\<close>, whose handler throws
  \<open>Object.create(null)\<close> and does nothing else.
\<close>

definition crashProps :: props where
  "crashProps =
     defaultProps\<lparr>userCommands := [(''crash'', \<lambda>args. ([], Inl ThrownUnprintable))]\<rparr>"

text \<open>
  C4 at the line \<open>crash\<close>, on that construction. The line resolves to the caller's
  handler, which throws. The exception is caught, but the \<open>catch\<close> block throws in its
  turn while it converts the value to a text: the promise that \<open>runCommand\<close> returns is
  rejected, so the exception leaves \<open>runCommand\<close>, and the scrollback holds the echo
  line alone, with no line for the error.
\<close>

theorem thrown_value_without_text_escapes:
  "splitCommand ''crash'' = (''crash'', [])
   \<and> getProperty (commands crashProps sampleEnv) sampleEnv ''crash''
       = map_of (userCommands crashProps) ''crash''
   \<and> the (map_of (userCommands crashProps) ''crash'') [] = ([], Inl ThrownUnprintable)
   \<and> errorText ThrownUnprintable = None
   \<and> fst (runCommandAsync crashProps sampleEnv ''crash'' (initState crashProps)) = Rejected
   \<and> lines (runCommand crashProps sampleEnv ''crash'' (initState crashProps)) = [''$ crash'']"
proof -
  let ?h = "\<lambda>args :: string list. ([] :: effect list, Inl ThrownUnprintable :: thrown + result)"
  have b: "\<not> blank ''crash''"
    by (simp add: blank_def isSpace_def)
  have sc: "splitCommand ''crash'' = (''crash'', [])"
    by code_simp
  have u: "map_of (userCommands crashProps) ''crash'' = Some ?h"
    by (simp add: crashProps_def)
  have g: "getProperty (commands crashProps sampleEnv) sampleEnv (fst (splitCommand ''crash''))
      = Some ?h"
    by (simp add: sc getProperty_def commands_def crashProps_def defaultProps_def builtin_def)
  have r: "?h (snd (splitCommand ''crash'')) = ([], Inl ThrownUnprintable)"
    by simp
  have s0: "lines (initState crashProps) = []"
    by (simp add: initState_def)
  from unprintable_throw_is_rejected [OF b g r, of "initState crashProps"]
  have "fst (runCommandAsync crashProps sampleEnv ''crash'' (initState crashProps)) = Rejected"
    and "lines (runCommand crashProps sampleEnv ''crash'' (initState crashProps)) = [''$ crash'']"
    by (simp_all add: s0)
  with sc g u show ?thesis by (simp add: sc)
qed

section \<open>A command that is not in the registry\<close>

text \<open>
  A first token that is no key of the registry and no member of \<open>Object.prototype\<close>
  gives the echo line and one line \<open>Command not found\<close> that names the token.
\<close>

lemma unknown_command_not_found:
  assumes "\<not> blank raw"
    and "map_of (commands p e) (fst (splitCommand raw)) = None"
    and "objectPrototype e (fst (splitCommand raw)) = None"
  shows "lines (runCommand p e raw s)
       = lines s @ [''$ '' @ raw, notFound (fst (splitCommand raw))]"
proof -
  have "outcome p e raw = ([], [notFound (fst (splitCommand raw))])"
    using assms(2,3) by (simp add: outcome_def getProperty_def)
  then show ?thesis
    using runCommand_lines [OF assms(1), of p e s] by simp
qed

text \<open>
  C5 at the line \<open>toString\<close>, on the default construction. The token is no key of
  the registry and no command name, but \<open>commands[cmd]\<close> finds the inherited function
  \<open>Object.prototype.toString\<close> and the engine runs it as the handler: the scrollback
  gets the echo line and \<open>[object Undefined]\<close>, and no line \<open>Command not found\<close>.
\<close>

theorem inherited_member_runs_as_command:
  "''toString'' \<notin> set (commandNames defaultProps e)
   \<and> map_of (commands defaultProps e) ''toString'' = None
   \<and> lines (runCommand defaultProps e ''toString'' s)
       = lines s @ [''$ toString'', ''[object Undefined]'']
   \<and> notFound ''toString'' \<notin> set [''$ toString'', ''[object Undefined]'']"
proof -
  have b: "\<not> blank ''toString''"
    by (simp add: blank_def isSpace_def)
  have sc: "splitCommand ''toString'' = (''toString'', [])"
    by code_simp
  have k: "''toString'' \<notin> set (commandNames defaultProps e)"
    by (simp add: commandNames_def commands_def defaultProps_def builtin_def)
  have m: "map_of (commands defaultProps e) ''toString'' = None"
    by (simp add: commands_def defaultProps_def builtin_def)
  have o: "outcome defaultProps e ''toString'' = ([], [''[object Undefined]''])"
    by (simp add: outcome_def sc getProperty_def m objectPrototype_def)
  have l: "lines (runCommand defaultProps e ''toString'' s)
       = lines s @ [''$ toString'', ''[object Undefined]'']"
    using runCommand_lines [OF b, of defaultProps e s] by (simp add: o)
  have n: "notFound ''toString'' \<notin> set [''$ toString'', ''[object Undefined]'']"
    by (simp add: notFound_def)
  from k m l n show ?thesis by simp
qed

section \<open>The theme command\<close>

text \<open>
  What a submitted line does whose first token is \<open>theme\<close>, when the caller has not
  replaced the built-in command: the whole state after it.
\<close>

lemma builtin_theme: "map_of (builtin e) ''theme'' = Some themeHandler"
  by (simp add: builtin_def)

lemma runCommand_theme:
  assumes "map_of (userCommands p) ''theme'' = None"
    and "tokenize raw = ''theme'' # args"
  shows "runCommand p e raw s =
     s\<lparr>lines := lines s @ [''$ '' @ raw,
            if themeArg args \<in> set themeTokens
            then ''Theme set to '' @ themeArg args @ ''.'' else themeUsage],
       history := sliceLast99 (history s) @ [raw],
       histIdx := - 1,
       theme := (if themeArg args \<in> set themeTokens then themeArg args else theme s)\<rparr>"
proof -
  have b: "\<not> blank raw"
    using assms(2) by (rule tokens_not_blank)
  have sc: "splitCommand raw = (''theme'', args)"
    by (simp add: splitCommand_def assms(2))
  have g: "getProperty (commands p e) e (fst (splitCommand raw)) = Some themeHandler"
    by (simp add: sc getProperty_def map_of_commands [OF assms(1)] builtin_theme)
  show ?thesis
    by (simp add: runCommand_resolved [OF b g] sc tryDispatch_def themeHandler_def Let_def
        appendLine_def themeUsage_def)
qed

text \<open>
  C6, as the code has it. With the built-in \<open>theme\<close> command, a line \<open>theme t\<close> is
  judged by the argument in lower case (the empty text when there is no argument). When
  that is one of \<open>holo\<close>, \<open>dark\<close>, \<open>light\<close>, the theme becomes it and the scrollback
  gets the echo line and exactly one confirmation line; otherwise the theme stays and
  the scrollback gets the echo line and exactly one usage line. The two lines differ,
  so the confirmation is there exactly in the first case.
\<close>

theorem theme_command_sets_or_rejects:
  assumes "map_of (userCommands p) ''theme'' = None"
    and "tokenize raw = ''theme'' # args"
  shows "(themeArg args \<in> set themeTokens \<longrightarrow>
            theme (runCommand p e raw s) = themeArg args
          \<and> lines (runCommand p e raw s)
              = lines s @ [''$ '' @ raw, ''Theme set to '' @ themeArg args @ ''.''])
     \<and> (themeArg args \<notin> set themeTokens \<longrightarrow>
            theme (runCommand p e raw s) = theme s
          \<and> lines (runCommand p e raw s) = lines s @ [''$ '' @ raw, themeUsage])
     \<and> ''Theme set to '' @ themeArg args @ ''.'' \<noteq> themeUsage"
proof -
  note run = runCommand_theme [OF assms, of e s]
  have accepted: "theme (runCommand p e raw s) = themeArg args
      \<and> lines (runCommand p e raw s)
          = lines s @ [''$ '' @ raw, ''Theme set to '' @ themeArg args @ ''.'']"
    if "themeArg args \<in> set themeTokens"
    using that by (simp add: run)
  have rejected: "theme (runCommand p e raw s) = theme s
      \<and> lines (runCommand p e raw s) = lines s @ [''$ '' @ raw, themeUsage]"
    if "themeArg args \<notin> set themeTokens"
    using that by (simp add: run)
  have differ: "''Theme set to '' @ themeArg args @ ''.'' \<noteq> themeUsage"
    by (simp add: themeUsage_def)
  from accepted rejected differ show ?thesis by blast
qed

theorem theme_command_sets_or_rejects_witness:
  "map_of (userCommands defaultProps) ''theme'' = None
   \<and> tokenize ''theme dark'' = ''theme'' # [''dark'']
   \<and> themeArg [''dark''] \<in> set themeTokens
   \<and> theme (runCommand defaultProps sampleEnv ''theme dark'' (initState defaultProps)) = ''dark''
   \<and> lines (runCommand defaultProps sampleEnv ''theme dark'' (initState defaultProps))
       = [''$ theme dark'', ''Theme set to dark.'']
   \<and> tokenize ''theme neon'' = ''theme'' # [''neon'']
   \<and> themeArg [''neon''] \<notin> set themeTokens
   \<and> theme (runCommand defaultProps sampleEnv ''theme neon'' (initState defaultProps)) = ''holo''
   \<and> lines (runCommand defaultProps sampleEnv ''theme neon'' (initState defaultProps))
       = [''$ theme neon'', ''Usage: theme <holo|dark|light>'']"
proof -
  let ?s = "initState defaultProps"
  have u: "map_of (userCommands defaultProps) ''theme'' = None"
    by (simp add: defaultProps_def)
  have t1: "tokenize ''theme dark'' = ''theme'' # [''dark'']"
    by code_simp
  have t2: "tokenize ''theme neon'' = ''theme'' # [''neon'']"
    by code_simp
  have a1: "themeArg [''dark''] = ''dark''"
    by code_simp
  have a2: "themeArg [''neon''] = ''neon''"
    by code_simp
  have m1: "themeArg [''dark''] \<in> set themeTokens"
    by (simp add: a1 themeTokens_def)
  have m2: "themeArg [''neon''] \<notin> set themeTokens"
    by (simp add: a2 themeTokens_def)
  have s0: "lines ?s = []" "theme ?s = ''holo''"
    by (simp_all add: initState_def defaultProps_def)
  from theme_command_sets_or_rejects [OF u t1, of sampleEnv ?s] m1
  have d: "theme (runCommand defaultProps sampleEnv ''theme dark'' ?s) = ''dark''
     \<and> lines (runCommand defaultProps sampleEnv ''theme dark'' ?s)
         = [''$ theme dark'', ''Theme set to dark.'']"
    by (simp add: a1 s0)
  from theme_command_sets_or_rejects [OF u t2, of sampleEnv ?s] m2
  have n: "theme (runCommand defaultProps sampleEnv ''theme neon'' ?s) = ''holo''
     \<and> lines (runCommand defaultProps sampleEnv ''theme neon'' ?s)
         = [''$ theme neon'', ''Usage: theme <holo|dark|light>'']"
    by (simp add: s0 themeUsage_def)
  from u t1 t2 m1 m2 d n show ?thesis by simp
qed

text \<open>
  C6 as it is written fails: \<open>DARK\<close> is not in the set of the three tokens, and
  \<open>theme DARK\<close> still changes the theme, from \<open>holo\<close> to \<open>dark\<close>, and prints the
  confirmation, not the usage line.
\<close>

theorem theme_outside_set_still_accepted:
  "''DARK'' \<notin> set themeTokens
   \<and> tokenize ''theme DARK'' = [''theme'', ''DARK'']
   \<and> theme (initState defaultProps) = ''holo''
   \<and> theme (runCommand defaultProps sampleEnv ''theme DARK'' (initState defaultProps)) = ''dark''
   \<and> lines (runCommand defaultProps sampleEnv ''theme DARK'' (initState defaultProps))
       = [''$ theme DARK'', ''Theme set to dark.'']"
  by code_simp

text \<open>
  C10. The built-in \<open>theme\<close> command reads its first argument in lower case: the theme
  after the command and the line it prints depend on the argument only through
  \<open>toLowerCase\<close>, the new theme is the lower-case token, the usage line is printed
  exactly when the lower-case argument is none of \<open>holo\<close>, \<open>dark\<close>, \<open>light\<close> and the
  confirmation exactly when it is one of them; \<open>DARK\<close> and \<open>Holo\<close> are read as
  \<open>dark\<close> and \<open>holo\<close>.
\<close>

theorem theme_argument_case_insensitive:
  assumes "map_of (userCommands p) ''theme'' = None"
    and "tokenize raw = ''theme'' # a # rest"
  shows "themeArg (a # rest) = toLowerCase a
     \<and> theme (runCommand p e raw s)
       = (if toLowerCase a \<in> set themeTokens then toLowerCase a else theme s)
     \<and> (lines (runCommand p e raw s) = lines s @ [''$ '' @ raw, themeUsage])
       = (toLowerCase a \<notin> set themeTokens)
     \<and> (lines (runCommand p e raw s)
          = lines s @ [''$ '' @ raw, ''Theme set to '' @ toLowerCase a @ ''.''])
       = (toLowerCase a \<in> set themeTokens)
     \<and> toLowerCase ''DARK'' = ''dark''
     \<and> toLowerCase ''Holo'' = ''holo''"
proof -
  have a: "themeArg (a # rest) = toLowerCase a"
    by (simp add: themeArg_def)
  have d: "toLowerCase ''DARK'' = ''dark''"
    by code_simp
  have h: "toLowerCase ''Holo'' = ''holo''"
    by code_simp
  show ?thesis
    by (simp add: runCommand_theme [OF assms] a d h themeUsage_def)
qed

theorem theme_argument_case_insensitive_witness:
  "map_of (userCommands defaultProps) ''theme'' = None
   \<and> tokenize ''theme Holo'' = ''theme'' # ''Holo'' # []
   \<and> toLowerCase ''Holo'' \<in> set themeTokens
   \<and> theme (runCommand defaultProps sampleEnv ''theme Holo''
         ((initState defaultProps)\<lparr>theme := ''light''\<rparr>)) = ''holo''
   \<and> tokenize ''theme DARK now'' = ''theme'' # ''DARK'' # [''now'']
   \<and> theme (runCommand defaultProps sampleEnv ''theme DARK now'' (initState defaultProps))
       = ''dark''"
proof -
  let ?s = "(initState defaultProps)\<lparr>theme := ''light''\<rparr>"
  have u: "map_of (userCommands defaultProps) ''theme'' = None"
    by (simp add: defaultProps_def)
  have t1: "tokenize ''theme Holo'' = ''theme'' # ''Holo'' # []"
    by code_simp
  have t2: "tokenize ''theme DARK now'' = ''theme'' # ''DARK'' # [''now'']"
    by code_simp
  have l1: "toLowerCase ''Holo'' = ''holo''"
    by code_simp
  have l2: "toLowerCase ''DARK'' = ''dark''"
    by code_simp
  have m: "toLowerCase ''Holo'' \<in> set themeTokens"
    by (simp add: l1 themeTokens_def)
  from theme_argument_case_insensitive [OF u t1, of sampleEnv ?s]
  have 1: "theme (runCommand defaultProps sampleEnv ''theme Holo'' ?s) = ''holo''"
    by (simp add: l1 themeTokens_def)
  from theme_argument_case_insensitive [OF u t2, of sampleEnv "initState defaultProps"]
  have 2: "theme (runCommand defaultProps sampleEnv ''theme DARK now'' (initState defaultProps))
      = ''dark''"
    by (simp add: l2 themeTokens_def)
  from u t1 t2 m 1 2 show ?thesis by simp
qed

section \<open>The help command\<close>












section \<open>History navigation\<close>

text \<open>
  The cursor is the sentinel or the index of an entry of the history. The fresh engine
  has this property and every event keeps it, so the up arrow never reads the history
  outside its bounds.
\<close>

definition cursorOK :: "state \<Rightarrow> bool" where
  "cursorOK s = (- 1 \<le> histIdx s \<and> histIdx s < int (length (history s)))"


lemma inputEffect_frame:
  "history (inputEffect names old new) = history new"
  "histIdx (inputEffect names old new) = histIdx new"
  "input (inputEffect names old new) = input new"
  "lines (inputEffect names old new) = lines new"
  "theme (inputEffect names old new) = theme new"
  by (simp_all add: inputEffect_def)


lemma cursorOK_runCommand: "cursorOK s \<Longrightarrow> cursorOK (runCommand p e raw s)"
  by (cases "blank raw")
    (simp_all add: runCommand_blank cursorOK_def runCommand_history runCommand_histIdx)

lemma cursorOK_onChange: "cursorOK s \<Longrightarrow> cursorOK (onChange p e v s)"
  by (simp add: cursorOK_def onChange_def inputEffect_frame)

lemma arrowUp_Some:
  assumes "cursorOK s" and "history s \<noteq> []"
  shows "arrowUp s =
     Some (s\<lparr>histIdx := (if histIdx s < 0 then int (length (history s)) - 1
                          else max 0 (histIdx s - 1)),
             input := history s ! nat (if histIdx s < 0 then int (length (history s)) - 1
                                       else max 0 (histIdx s - 1))\<rparr>)"
  using assms by (auto simp: arrowUp_def jsIndex_def cursorOK_def Let_def)

lemma arrowDown_Some:
  assumes "cursorOK s" and "0 \<le> histIdx s"
  shows "arrowDown s =
     Some (if histIdx s + 1 \<ge> int (length (history s)) then s\<lparr>histIdx := - 1, input := []\<rparr>
           else s\<lparr>histIdx := histIdx s + 1, input := history s ! nat (histIdx s + 1)\<rparr>)"
  using assms by (auto simp: arrowDown_def jsIndex_def cursorOK_def Let_def)

lemma onKeyDown_total: "cursorOK s \<Longrightarrow> \<exists>s'. onKeyDown p e k s = Some s' \<and> cursorOK s'"
proof (cases k)
  case ArrowUp
  assume ok: "cursorOK s"
  show ?thesis
  proof (cases "history s = []")
    case True
    with ok ArrowUp show ?thesis
      by (simp add: onKeyDown_def arrowUp_def cursorOK_def inputEffect_frame)
  next
    case False
    with ok ArrowUp show ?thesis
      by (auto simp: onKeyDown_def arrowUp_Some cursorOK_def inputEffect_frame)
  qed
next
  case ArrowDown
  assume ok: "cursorOK s"
  show ?thesis
  proof (cases "0 \<le> histIdx s")
    case True
    with ok ArrowDown show ?thesis
      by (auto simp: onKeyDown_def arrowDown_Some cursorOK_def inputEffect_frame)
  next
    case False
    with ok ArrowDown show ?thesis
      by (simp add: onKeyDown_def arrowDown_def cursorOK_def inputEffect_frame)
  qed
next
  case Enter
  assume "cursorOK s"
  then have "cursorOK (s\<lparr>input := [], suggestion := []\<rparr>)"
    by (simp add: cursorOK_def)
  then have "cursorOK (enter p e s)"
    unfolding enter_def by (rule cursorOK_runCommand)
  with Enter show ?thesis
    by (simp add: onKeyDown_def cursorOK_def inputEffect_frame)
next
  case Tab
  assume "cursorOK s"
  moreover have "history (tab names s) = history s \<and> histIdx (tab names s) = histIdx s" for names
    by (simp add: tab_def Let_def split: list.splits)
  ultimately show ?thesis using Tab
    by (simp add: onKeyDown_def cursorOK_def inputEffect_frame)
next
  case Escape
  assume "cursorOK s"
  with Escape show ?thesis
    by (simp add: onKeyDown_def cursorOK_def inputEffect_frame)
next
  case OtherKey
  assume "cursorOK s"
  with OtherKey show ?thesis
    by (simp add: onKeyDown_def cursorOK_def inputEffect_frame)
qed





section \<open>Completion\<close>

text \<open>
  The Tab key on an input whose first token is not empty: with one command name that
  starts with the token, the leading run of characters that are not white space is
  replaced by the name and the suggestion is emptied; with several, the suggestion
  becomes their list and the buffer stays; with none, nothing changes. A name without
  a dollar sign is inserted as it is, and the replacement finds nothing to replace when
  the buffer starts with white space. Typing sets the suggestion to the hint for the new
  text, whatever it was before.
\<close>

lemma getSubstitution_plain:
  "CHR ''$'' \<notin> set name \<Longrightarrow> getSubstitution matched after name = name"
  by (induction matched after name rule: getSubstitution.induct) auto

lemma replaceFirstWord_plain:
  assumes "inp = c # cs" and "notSpace c" and "CHR ''$'' \<notin> set name"
  shows "replaceFirstWord inp name = name @ dropWhile notSpace inp"
  using assms by (simp add: replaceFirstWord_def getSubstitution_plain)

lemma replaceFirstWord_after_space:
  assumes "inp = c # cs" and "isSpace c"
  shows "replaceFirstWord inp name = inp"
  using assms by (simp add: replaceFirstWord_def notSpace_def)

lemma tab_cases:
  assumes "tokenize (input s) = tok # toks" and "tok \<noteq> []"
  shows "(filter (\<lambda>c. startsWith c tok) names = [name] \<longrightarrow>
            tab names s = s\<lparr>input := replaceFirstWord (input s) name, suggestion := []\<rparr>)
     \<and> (1 < length (filter (\<lambda>c. startsWith c tok) names) \<longrightarrow>
            tab names s = s\<lparr>suggestion := join ''  '' (filter (\<lambda>c. startsWith c tok) names)\<rparr>)
     \<and> (filter (\<lambda>c. startsWith c tok) names = [] \<longrightarrow> tab names s = s)"
  using assms by (simp add: tab_def Let_def)

lemma tab_no_token: "tokenize (input s) = [] \<Longrightarrow> tab names s = s"
  by (simp add: tab_def)

lemma onChange_recomputes:
  "v \<noteq> input s \<Longrightarrow>
   onChange p e v s = s\<lparr>input := v, suggestion := hint (commandNames p e) v\<rparr>"
  by (simp add: onChange_def inputEffect_def)

text \<open>
  With the commands \<open>help\<close> and \<open>history\<close> in the registry, Tab on \<open>h\<close> leaves the
  buffer and suggests both names, and Tab on \<open>he\<close> rewrites the buffer to \<open>help\<close>.
\<close>

lemma completion_examples:
  "map_option input (onKeyDown sampleProps sampleEnv Tab
      (onChange sampleProps sampleEnv ''h'' (initState sampleProps))) = Some ''h''"
  "map_option suggestion (onKeyDown sampleProps sampleEnv Tab
      (onChange sampleProps sampleEnv ''h'' (initState sampleProps))) = Some ''help  history''"
  "map_option input (onKeyDown sampleProps sampleEnv Tab
      (onChange sampleProps sampleEnv ''he'' (initState sampleProps))) = Some ''help''"
  by code_simp+

text \<open>
  C8 at the input buffer \<open> he\<close>, a space before the token, on the default
  construction. The first token is \<open>he\<close>, exactly one command name starts with it,
  \<open>help\<close>, and the hint shown while typing is that name. Tab does not replace the
  token: the pattern \<^verbatim>\<open>/^\S+/\<close> matches nothing at the start of the buffer, which stays
  as it was, and the suggestion is emptied.
\<close>

theorem completion_misses_after_leading_space:
  "tokenize '' he'' = [''he'']
   \<and> filter (\<lambda>c. startsWith c ''he'') (commandNames defaultProps sampleEnv) = [''help'']
   \<and> suggestion (onChange defaultProps sampleEnv '' he'' (initState defaultProps)) = ''help''
   \<and> map_option input (onKeyDown defaultProps sampleEnv Tab
        (onChange defaultProps sampleEnv '' he'' (initState defaultProps))) = Some '' he''
   \<and> map_option suggestion (onKeyDown defaultProps sampleEnv Tab
        (onChange defaultProps sampleEnv '' he'' (initState defaultProps))) = Some []"
  by code_simp


end
